theory Spec2Isabelle
  imports Complex_Main
begin

section \<open>Python values and faults\<close>

text \<open>
  The transform of \<^verbatim>\<open>goggles.py\<close> computes with Python numbers and raises Python
  exceptions. Numbers are modelled as real numbers (exact arithmetic: rounding and overflow
  of machine floats are outside the model), exceptions as the left summand of a result.
\<close>

datatype py_error = IndexError | ZeroDivisionError

definition seq :: "py_error + 'a \<Rightarrow> ('a \<Rightarrow> py_error + 'b) \<Rightarrow> py_error + 'b" where
  \<comment> \<open>Statement sequencing: a raised exception skips the rest of the body.\<close>
  "seq m f = (case m of Inl e \<Rightarrow> Inl e | Inr x \<Rightarrow> f x)"

definition py_index :: "'a list \<Rightarrow> nat \<Rightarrow> py_error + 'a" where
  \<comment> \<open>\<^verbatim>\<open>xs[i]\<close> for a literal index \<open>i \<ge> 0\<close>.\<close>
  "py_index xs i = (if i < length xs then Inr (xs ! i) else Inl IndexError)"

definition py_index2 :: "'a list list \<Rightarrow> nat \<Rightarrow> nat \<Rightarrow> py_error + 'a" where
  \<comment> \<open>\<^verbatim>\<open>xss[i][j]\<close>.\<close>
  "py_index2 xss i j = seq (py_index xss i) (\<lambda>xs. py_index xs j)"

definition py_truediv :: "real \<Rightarrow> real \<Rightarrow> py_error + real" where
  \<comment> \<open>\<^verbatim>\<open>a / b\<close> on Python numbers.\<close>
  "py_truediv a b = (if b = 0 then Inl ZeroDivisionError else Inr (a / b))"

definition py_int :: "real \<Rightarrow> int" where
  \<comment> \<open>\<^verbatim>\<open>int(x)\<close>: truncation towards zero.\<close>
  "py_int x = (if 0 \<le> x then \<lfloor>x\<rfloor> else \<lceil>x\<rceil>)"


section \<open>The imaging library and the face detector\<close>

text \<open>
  The imaging library (\<^verbatim>\<open>PIL.Image\<close>, \<^verbatim>\<open>PIL.ImageColor\<close>) is not part of the
  program. Its operations are a parameter of the model: a record with one field for each
  operation that \<^verbatim>\<open>__call__\<close> uses, and two observers (\<open>getpixel\<close>, \<open>getalpha\<close>)
  in which properties of the resulting image are stated. \<^verbatim>\<open>sample.paste(im, box, mask)\<close>
  mutates \<^verbatim>\<open>sample\<close>; here it returns the new image.
\<close>

type_synonym colour = "int list"
type_synonym pixel = "int list"

record 'img pil =
  Image_new :: "string \<Rightarrow> int \<times> int \<Rightarrow> colour \<Rightarrow> 'img"
  ImageColor_getrgb :: "string \<Rightarrow> colour"
  rotate_img :: "'img \<Rightarrow> real \<Rightarrow> bool \<Rightarrow> real \<times> real \<Rightarrow> 'img"
  size_img :: "'img \<Rightarrow> int \<times> int"
  paste :: "'img \<Rightarrow> 'img \<Rightarrow> int \<times> int \<Rightarrow> 'img \<Rightarrow> 'img"
  getpixel :: "'img \<Rightarrow> int \<times> int \<Rightarrow> pixel"
  getalpha :: "'img \<Rightarrow> int \<times> int \<Rightarrow> int"

text \<open>
  Modelled from the spec: \<^verbatim>\<open>data_utils.detect_faces\<close> is not among the sources. It maps
  an image to a sequence of per-face bounding boxes and a sequence of per-face flattened
  numeric landmark arrays. It is a parameter of the model as well.
\<close>

type_synonym 'img detector = "'img \<Rightarrow> real list list \<times> real list list"


section \<open>\<^verbatim>\<open>GogglesTransform.__call__\<close>\<close>

text \<open>
  The local variables of lines 12 to 23: the six coordinates read from the first landmark
  entry, the eye midpoint, the size of the overlay, the rectangle returned by
  \<^verbatim>\<open>Image.new\<close> and its middle.
\<close>

record 'img shape =
  left_eye_x :: real
  left_eye_y :: real
  right_eye_x :: real
  right_eye_y :: real
  nose_x :: real
  nose_y :: real
  middle_eyes_x :: real
  middle_eyes_y :: real
  googles_width :: real
  googles_height :: real
  rectangle :: 'img
  middle_rectangle_x :: real
  middle_rectangle_y :: real

definition make_rectangle :: "'img pil \<Rightarrow> real list list \<Rightarrow> py_error + 'img shape" where
  "make_rectangle lib landmarks =
    seq (py_index2 landmarks 0 0) (\<lambda>left_eye_x.
    seq (py_index2 landmarks 0 5) (\<lambda>left_eye_y.
    seq (py_index2 landmarks 0 1) (\<lambda>right_eye_x.
    seq (py_index2 landmarks 0 6) (\<lambda>right_eye_y.
    seq (py_index2 landmarks 0 2) (\<lambda>nose_x.
    seq (py_index2 landmarks 0 7) (\<lambda>nose_y.
      let middle_eyes_x = (right_eye_x + left_eye_x) / 2;
          middle_eyes_y = (right_eye_y + left_eye_y) / 2;
          googles_width =
            2.2 * sqrt ((right_eye_y - left_eye_y)\<^sup>2 + (right_eye_x - left_eye_x)\<^sup>2);
          googles_height =
            1.5 * sqrt ((middle_eyes_y - nose_y)\<^sup>2 + (middle_eyes_x - nose_x)\<^sup>2);
          rectangle = Image_new lib ''RGBA'' (py_int googles_width, py_int googles_height)
                        (ImageColor_getrgb lib ''LightGray'')
      in Inr \<lparr>left_eye_x = left_eye_x, left_eye_y = left_eye_y,
              right_eye_x = right_eye_x, right_eye_y = right_eye_y,
              nose_x = nose_x, nose_y = nose_y,
              middle_eyes_x = middle_eyes_x, middle_eyes_y = middle_eyes_y,
              googles_width = googles_width, googles_height = googles_height,
              rectangle = rectangle,
              middle_rectangle_x = googles_width / 2,
              middle_rectangle_y = googles_height / 2\<rparr>))))))"

text \<open>
  The local variables of lines 24 to 27: the angle, the rotated rectangle, its size, the
  box passed to \<^verbatim>\<open>paste\<close> and the image after the paste.
\<close>

record 'img placed =
  angle :: real
  rotated :: 'img
  final_size :: "int \<times> int"
  box :: "int \<times> int"
  pasted :: 'img

definition rotate_and_paste :: "'img pil \<Rightarrow> 'img \<Rightarrow> 'img shape \<Rightarrow> py_error + 'img placed" where
  "rotate_and_paste lib sample s =
    seq (py_truediv (right_eye_y s - left_eye_y s) (right_eye_x s - left_eye_x s)) (\<lambda>slope.
      let angle = slope * 180 / pi;
          rectangle = rotate_img lib (rectangle s) (- angle) True
                        (middle_rectangle_x s, middle_rectangle_y s);
          final_size = size_img lib rectangle;
          box = (py_int (middle_eyes_x s - real_of_int (fst final_size) / 2),
                 py_int (middle_eyes_y s - real_of_int (snd final_size) / 2))
      in Inr \<lparr>angle = angle, rotated = rectangle, final_size = final_size, box = box,
              pasted = paste lib sample rectangle box rectangle\<rparr>)"

definition call :: "'img pil \<Rightarrow> 'img detector \<Rightarrow> 'img \<Rightarrow> py_error + 'img" where
  "call lib detect_faces sample =
    (case detect_faces sample of (bounding_boxes, landmarks) \<Rightarrow>
      if length landmarks = 0 then Inr sample
      else seq (make_rectangle lib landmarks) (\<lambda>s.
           seq (rotate_and_paste lib sample s) (\<lambda>p. Inr (pasted p))))"


section \<open>Geometry in the words of the specification\<close>

text \<open>
  The notions in which the specification describes the overlay: points, the Euclidean
  distance, the arithmetic mean of two points, and the three points of a flattened landmark
  entry (five x-coordinates followed by five y-coordinates).
\<close>

type_synonym point = "real \<times> real"

definition euclid :: "point \<Rightarrow> point \<Rightarrow> real" where
  "euclid p q = sqrt ((fst p - fst q)\<^sup>2 + (snd p - snd q)\<^sup>2)"

definition mean_point :: "point \<Rightarrow> point \<Rightarrow> point" where
  "mean_point p q = ((fst p + fst q) / 2, (snd p + snd q) / 2)"

definition left_eye :: "real list \<Rightarrow> point" where
  "left_eye e = (e ! 0, e ! 5)"

definition right_eye :: "real list \<Rightarrow> point" where
  "right_eye e = (e ! 1, e ! 6)"

definition nose :: "real list \<Rightarrow> point" where
  "nose e = (e ! 2, e ! 7)"

definition in_box :: "int \<times> int \<Rightarrow> int \<times> int \<Rightarrow> int \<times> int \<Rightarrow> bool" where
  \<comment> \<open>The pixel \<open>p\<close> lies in the region of size \<open>sz\<close> whose top-left corner is \<open>bx\<close>.\<close>
  "in_box bx sz p =
    (fst bx \<le> fst p \<and> fst p < fst bx + fst sz \<and> snd bx \<le> snd p \<and> snd p < snd bx + snd sz)"


section \<open>What is assumed of the imaging library\<close>

text \<open>
  The documented behaviour of the library operations, as far as a property below depends on
  it: an image made by \<^verbatim>\<open>Image.new\<close> has the requested size; a rotation by zero degrees
  with \<^verbatim>\<open>expand=True\<close> keeps the size; \<^verbatim>\<open>paste\<close> changes no pixel outside the region
  covered by the pasted image, and no pixel where the mask is zero.
\<close>

definition new_has_size :: "'img pil \<Rightarrow> bool" where
  "new_has_size lib =
    (\<forall>m sz c. 0 \<le> fst sz \<and> 0 \<le> snd sz \<longrightarrow> size_img lib (Image_new lib m sz c) = sz)"

definition rotate0_keeps_size :: "'img pil \<Rightarrow> bool" where
  "rotate0_keeps_size lib =
    (\<forall>im c. 0 \<le> fst (size_img lib im) \<and> 0 \<le> snd (size_img lib im) \<longrightarrow>
       size_img lib (rotate_img lib im 0 True c) = size_img lib im)"

definition paste_keeps_outside :: "'img pil \<Rightarrow> bool" where
  "paste_keeps_outside lib =
    (\<forall>im src bx msk p. \<not> in_box bx (size_img lib src) p \<longrightarrow>
       getpixel lib (paste lib im src bx msk) p = getpixel lib im p)"

definition paste_keeps_masked :: "'img pil \<Rightarrow> bool" where
  "paste_keeps_masked lib =
    (\<forall>im src bx msk p. getalpha lib msk (fst p - fst bx, snd p - snd bx) = 0 \<longrightarrow>
       getpixel lib (paste lib im src bx msk) p = getpixel lib im p)"


section \<open>A reference instance of the imaging library\<close>

text \<open>
  An instance of the library interface in exact arithmetic, on images given by a mode, a
  size and a pixel function. It shows that the assumptions above can be met together, and
  the transform is evaluated on it at concrete inputs. The rotation follows the usual
  scheme: the affine map about the given centre, the canvas grown to the bounding box of
  the four transformed corners, nearest-neighbour sampling, and transparent black where the
  source has no pixel.
\<close>

record image =
  im_mode :: string
  im_size :: "int \<times> int"
  im_pix :: "int \<times> int \<Rightarrow> pixel"

definition inside :: "int \<times> int \<Rightarrow> int \<times> int \<Rightarrow> bool" where
  "inside sz p = (0 \<le> fst p \<and> fst p < fst sz \<and> 0 \<le> snd p \<and> snd p < snd sz)"

definition ref_new :: "string \<Rightarrow> int \<times> int \<Rightarrow> colour \<Rightarrow> image" where
  "ref_new m sz c =
    \<lparr>im_mode = m, im_size = sz,
     im_pix = (\<lambda>p. if m = ''RGBA'' \<and> length c = 3 then c @ [255] else c)\<rparr>"

definition ref_getrgb :: "string \<Rightarrow> colour" where
  "ref_getrgb name = (if name = ''LightGray'' then [211, 211, 211] else [])"

definition ref_alpha :: "image \<Rightarrow> int \<times> int \<Rightarrow> int" where
  "ref_alpha im p = (let px = im_pix im p in if length px = 4 then px ! 3 else 255)"

type_synonym matrix = "real \<times> real \<times> real \<times> real \<times> real \<times> real"

definition affine :: "matrix \<Rightarrow> real \<times> real \<Rightarrow> real \<times> real" where
  "affine m p =
    (case m of (a, b, c, d, e, f) \<Rightarrow> (a * fst p + b * snd p + c, d * fst p + e * snd p + f))"

definition rotation_matrix :: "real \<Rightarrow> real \<times> real \<Rightarrow> matrix" where
  \<comment> \<open>The rotation by \<open>ang\<close> degrees that keeps \<open>centre\<close> fixed.\<close>
  "rotation_matrix ang centre =
    (let t = - (ang * pi / 180);
         v = affine (cos t, sin t, 0, - sin t, cos t, 0) (- fst centre, - snd centre)
     in (cos t, sin t, fst v + fst centre, - sin t, cos t, snd v + snd centre))"

definition extent :: "real \<Rightarrow> real \<Rightarrow> real \<Rightarrow> real \<Rightarrow> int" where
  \<comment> \<open>The number of pixel columns (or rows) that four corner coordinates span.\<close>
  "extent x1 x2 x3 x4 = \<lceil>max (max x1 x2) (max x3 x4)\<rceil> - \<lfloor>min (min x1 x2) (min x3 x4)\<rfloor>"

definition expanded_size :: "matrix \<Rightarrow> int \<times> int \<Rightarrow> int \<times> int" where
  "expanded_size m sz =
    (let w = real_of_int (fst sz); h = real_of_int (snd sz);
         p1 = affine m (0, 0); p2 = affine m (w, 0); p3 = affine m (w, h); p4 = affine m (0, h)
     in (extent (fst p1) (fst p2) (fst p3) (fst p4),
         extent (snd p1) (snd p2) (snd p3) (snd p4)))"

definition recentre :: "matrix \<Rightarrow> int \<times> int \<Rightarrow> int \<times> int \<Rightarrow> matrix" where
  \<comment> \<open>The matrix after the canvas has grown from \<open>sz\<close> to \<open>nsz\<close> about its middle.\<close>
  "recentre m sz nsz =
    (let v = affine m (- real_of_int (fst nsz - fst sz) / 2, - real_of_int (snd nsz - snd sz) / 2)
     in (case m of (a, b, c, d, e, f) \<Rightarrow> (a, b, fst v, d, e, snd v)))"

definition sample_nearest :: "image \<Rightarrow> matrix \<Rightarrow> int \<times> int \<Rightarrow> pixel" where
  "sample_nearest im m p =
    (let v = affine m (real_of_int (fst p) + 1 / 2, real_of_int (snd p) + 1 / 2);
         q = (\<lfloor>fst v\<rfloor>, \<lfloor>snd v\<rfloor>)
     in if inside (im_size im) q then im_pix im q else [0, 0, 0, 0])"

definition ref_rotate :: "image \<Rightarrow> real \<Rightarrow> bool \<Rightarrow> real \<times> real \<Rightarrow> image" where
  "ref_rotate im ang expand centre =
    (let m = rotation_matrix ang centre;
         nsz = (if expand then expanded_size m (im_size im) else im_size im);
         m' = (if expand then recentre m (im_size im) nsz else m)
     in \<lparr>im_mode = im_mode im, im_size = nsz, im_pix = sample_nearest im m'\<rparr>)"

definition blend :: "int \<Rightarrow> pixel \<Rightarrow> pixel \<Rightarrow> pixel" where
  "blend al src dst = map2 (\<lambda>sv dv. (sv * al + dv * (255 - al)) div 255) src dst"

definition ref_paste :: "image \<Rightarrow> image \<Rightarrow> int \<times> int \<Rightarrow> image \<Rightarrow> image" where
  "ref_paste im src bx msk =
    im\<lparr>im_pix := (\<lambda>p.
      let q = (fst p - fst bx, snd p - snd bx)
      in if inside (im_size im) p \<and> inside (im_size src) q \<and> ref_alpha msk q \<noteq> 0
         then blend (ref_alpha msk q) (im_pix src q) (im_pix im p)
         else im_pix im p)\<rparr>"

definition ref_pil :: "image pil" where
  "ref_pil =
    \<lparr>Image_new = ref_new, ImageColor_getrgb = ref_getrgb, rotate_img = ref_rotate,
     size_img = im_size, paste = ref_paste, getpixel = im_pix, getalpha = ref_alpha\<rparr>"

definition photo :: image where
  \<comment> \<open>A black 100 by 100 RGB image.\<close>
  "photo = ref_new ''RGB'' (100, 100) [0, 0, 0]"


section \<open>The two stages of the call\<close>

lemma py_index2_first:
  "landmarks \<noteq> [] \<Longrightarrow> py_index2 landmarks 0 j = py_index (hd landmarks) j"
  by (cases landmarks) (simp_all add: py_index2_def py_index_def seq_def)

lemma make_rectangle_Inr:
  assumes "landmarks \<noteq> []" and "8 \<le> length (hd landmarks)"
  shows "make_rectangle lib landmarks =
    (let e = hd landmarks;
         mex = (e ! 1 + e ! 0) / 2; mey = (e ! 6 + e ! 5) / 2;
         gw = 2.2 * sqrt ((e ! 6 - e ! 5)\<^sup>2 + (e ! 1 - e ! 0)\<^sup>2);
         gh = 1.5 * sqrt ((mey - e ! 7)\<^sup>2 + (mex - e ! 2)\<^sup>2)
     in Inr \<lparr>left_eye_x = e ! 0, left_eye_y = e ! 5, right_eye_x = e ! 1, right_eye_y = e ! 6,
             nose_x = e ! 2, nose_y = e ! 7, middle_eyes_x = mex, middle_eyes_y = mey,
             googles_width = gw, googles_height = gh,
             rectangle = Image_new lib ''RGBA'' (py_int gw, py_int gh)
                           (ImageColor_getrgb lib ''LightGray''),
             middle_rectangle_x = gw / 2, middle_rectangle_y = gh / 2\<rparr>)"
  using assms by (auto simp add: make_rectangle_def py_index2_first py_index_def seq_def Let_def)

lemma make_rectangle_Inl:
  assumes "landmarks \<noteq> []" and "length (hd landmarks) < 8"
  shows "make_rectangle lib landmarks = Inl IndexError"
  using assms by (simp add: make_rectangle_def py_index2_first py_index_def seq_def Let_def)

lemma rotate_and_paste_Inl:
  "right_eye_x s = left_eye_x s \<Longrightarrow> rotate_and_paste lib sample s = Inl ZeroDivisionError"
  by (simp add: rotate_and_paste_def py_truediv_def seq_def)

lemma rotate_and_paste_Inr:
  "right_eye_x s \<noteq> left_eye_x s \<Longrightarrow> rotate_and_paste lib sample s =
    (let ang = (right_eye_y s - left_eye_y s) / (right_eye_x s - left_eye_x s) * 180 / pi;
         rot = rotate_img lib (rectangle s) (- ang) True (middle_rectangle_x s, middle_rectangle_y s);
         fs = size_img lib rot;
         bx = (py_int (middle_eyes_x s - real_of_int (fst fs) / 2),
               py_int (middle_eyes_y s - real_of_int (snd fs) / 2))
     in Inr \<lparr>angle = ang, rotated = rot, final_size = fs, box = bx,
             pasted = paste lib sample rot bx rot\<rparr>)"
  by (simp add: rotate_and_paste_def py_truediv_def seq_def Let_def)

lemma call_nonempty:
  "detect_faces sample = (bbs, landmarks) \<Longrightarrow> landmarks \<noteq> [] \<Longrightarrow>
   call lib detect_faces sample =
     seq (make_rectangle lib landmarks) (\<lambda>s.
     seq (rotate_and_paste lib sample s) (\<lambda>p. Inr (pasted p)))"
  by (simp add: call_def)


lemma py_int_nonneg: "0 \<le> x \<Longrightarrow> py_int x = \<lfloor>x\<rfloor>"
  by (simp add: py_int_def)


lemma sqrt_100: "sqrt 100 = 10"
  using real_sqrt_abs [of 10] by simp

lemma call_Inr_stages:
  assumes "detect_faces sample = (bbs, landmarks)" and "landmarks \<noteq> []"
    and "call lib detect_faces sample = Inr out"
  shows "\<exists>s p. make_rectangle lib landmarks = Inr s \<and> rotate_and_paste lib sample s = Inr p \<and>
    out = pasted p \<and> 8 \<le> length (hd landmarks) \<and> right_eye_x s \<noteq> left_eye_x s"
proof -
  have c: "seq (make_rectangle lib landmarks) (\<lambda>s.
     seq (rotate_and_paste lib sample s) (\<lambda>p. Inr (pasted p))) = Inr out"
    using assms by (simp add: call_nonempty)
  then obtain s where s: "make_rectangle lib landmarks = Inr s"
    by (cases "make_rectangle lib landmarks") (simp_all add: seq_def)
  with c obtain p where p: "rotate_and_paste lib sample s = Inr p" "out = pasted p"
    by (cases "rotate_and_paste lib sample s") (auto simp add: seq_def)
  have len: "8 \<le> length (hd landmarks)"
    using s make_rectangle_Inl [OF assms(2), of lib] by (cases "length (hd landmarks) < 8") simp_all
  have "right_eye_x s \<noteq> left_eye_x s"
    using p(1) rotate_and_paste_Inl [of s lib sample] by auto
  with s p len show ?thesis by blast
qed


lemma both_stages:
  assumes "detect_faces sample = (bbs, landmarks)" and "landmarks \<noteq> []"
    and "8 \<le> length (hd landmarks)" and "hd landmarks ! 1 \<noteq> hd landmarks ! 0"
  shows "\<exists>s p. make_rectangle lib landmarks = Inr s \<and> rotate_and_paste lib sample s = Inr p \<and>
    call lib detect_faces sample = Inr (pasted p)"
  using assms
  by (simp add: call_nonempty make_rectangle_Inr rotate_and_paste_Inr Let_def seq_def)

section \<open>The reference instance meets the assumptions\<close>

lemma ref_pil_fields:
  "Image_new ref_pil = ref_new" "ImageColor_getrgb ref_pil = ref_getrgb"
  "rotate_img ref_pil = ref_rotate" "size_img ref_pil = im_size" "paste ref_pil = ref_paste"
  "getpixel ref_pil = im_pix" "getalpha ref_pil = ref_alpha"
  by (simp_all add: ref_pil_def)

lemma ref_new_size: "new_has_size ref_pil"
  by (simp add: new_has_size_def ref_pil_def ref_new_def)

lemma in_box_inside: "in_box bx sz p = inside sz (fst p - fst bx, snd p - snd bx)"
  by (auto simp add: in_box_def inside_def)

lemma ref_paste_outside: "paste_keeps_outside ref_pil"
  by (simp add: paste_keeps_outside_def ref_pil_def ref_paste_def in_box_inside Let_def)

lemma ref_paste_masked: "paste_keeps_masked ref_pil"
  by (simp add: paste_keeps_masked_def ref_pil_def ref_paste_def Let_def)

lemma rotation_matrix_0: "rotation_matrix 0 c = (1, 0, 0, 0, 1, 0)"
  by (simp add: rotation_matrix_def affine_def)

lemma expanded_size_id:
  "0 \<le> fst sz \<Longrightarrow> 0 \<le> snd sz \<Longrightarrow> expanded_size (1, 0, 0, 0, 1, 0) sz = sz"
  by (cases sz) (simp add: expanded_size_def affine_def extent_def Let_def)

lemma ref_rotate0_im_size:
  "0 \<le> fst (im_size im) \<Longrightarrow> 0 \<le> snd (im_size im) \<Longrightarrow>
   im_size (ref_rotate im 0 True c) = im_size im"
  by (simp add: ref_rotate_def rotation_matrix_0 expanded_size_id Let_def)

lemma ref_rotate0_size: "rotate0_keeps_size ref_pil"
  by (simp add: rotate0_keeps_size_def ref_pil_def ref_rotate0_im_size)


lemma rotation_matrix_180:
  "rotation_matrix (- 180) c = (- 1, 0, 2 * fst c, 0, - 1, 2 * snd c)"
  by (simp add: rotation_matrix_def affine_def)

lemma half_turn_width:
  fixes g :: real
  assumes "1 < g" and "g < 2"
  shows "expanded_size (- 1, 0, g, 0, - 1, 3) (1, 3) = (2, 3)"
proof -
  have c: "\<lceil>g\<rceil> = 2" using assms by linarith
  have f: "\<lfloor>g\<rfloor> = 1" using assms by linarith
  have mx: "max (max g (g - 1)) (max (g - 1) g) = g" by simp
  have mn: "min (min g (g - 1)) (min (g - 1) g) = g - 1" by simp
  show ?thesis
    by (simp add: expanded_size_def affine_def extent_def Let_def mx mn c f)
qed

lemma width_bounds:
  "1 < 2.2 * sqrt ((pi * 21 / 100)\<^sup>2 + (21 / 100)\<^sup>2)"
  "2.2 * sqrt ((pi * 21 / 100)\<^sup>2 + (21 / 100)\<^sup>2) < 2"
proof -
  let ?r = "sqrt ((pi * 21 / 100)\<^sup>2 + (21 / 100)\<^sup>2)"
  have lo: "4 \<le> pi\<^sup>2" using pi_ge_two power_mono [of 2 pi 2] by simp
  have hi: "pi\<^sup>2 < 16" using pi_less_4 power_strict_mono [of pi 4 2] by simp
  have e: "(pi * 21 / 100)\<^sup>2 = 441 / 10000 * pi\<^sup>2" by (simp add: power2_eq_square)
  have "(46 / 100)\<^sup>2 < (pi * 21 / 100)\<^sup>2 + (21 / 100 :: real)\<^sup>2"
    unfolding e using lo by (simp add: power2_eq_square)
  then have a: "46 / 100 < ?r" by (rule real_less_rsqrt)
  have "(pi * 21 / 100)\<^sup>2 + (21 / 100 :: real)\<^sup>2 < (9 / 10)\<^sup>2"
    unfolding e using hi by (simp add: power2_eq_square)
  then have b: "?r < 9 / 10" by (intro real_less_lsqrt) simp_all
  show "1 < 2.2 * ?r" using a by simp
  show "2.2 * ?r < 2" using b by simp
qed

lemma cos_four_thirds: "23 / 100 \<le> cos (4 / 3 :: real)" "cos (4 / 3 :: real) \<le> 24 / 100"
proof -
  obtain t :: real where
    c: "cos (4 / 3) = (\<Sum>m<8. cos_coeff m * (4 / 3) ^ m) +
          (cos (t + 1 / 2 * real (8 :: nat) * pi) / fact 8) * (4 / 3) ^ 8"
    using Maclaurin_cos_expansion [of "4 / 3" 8] by blast
  have s: "(\<Sum>m<8. cos_coeff m * (4 / 3 :: real) ^ m) = 7709 / 32805"
    by (simp add: cos_coeff_def lessThan_nat_numeral lessThan_Suc fact_numeral power_divide)
  have r: "\<bar>cos (t + 1 / 2 * real (8 :: nat) * pi)\<bar> \<le> 1" by (rule abs_cos_le_one)
  define u where "u = cos (t + 1 / 2 * real (8 :: nat) * pi)"
  have k: "(1 / fact 8 * (4 / 3) ^ 8 :: real) = 65536 / 264539520"
    by (simp add: fact_numeral power_divide)
  have "u / fact 8 * (4 / 3) ^ 8 = u * (1 / fact 8 * (4 / 3) ^ 8)" by simp
  then have c': "cos (4 / 3) = 7709 / 32805 + u * (65536 / 264539520)"
    using c s unfolding k by (simp add: u_def)
  have u: "- 1 \<le> u" "u \<le> 1" using r by (auto simp add: u_def)
  show "23 / 100 \<le> cos (4 / 3 :: real)" "cos (4 / 3 :: real) \<le> 24 / 100"
    unfolding c' using u by linarith+
qed

lemma sin_four_thirds: "97 / 100 \<le> sin (4 / 3 :: real)" "sin (4 / 3 :: real) \<le> 98 / 100"
proof -
  have b: "\<bar>sin (4 / 3) - (\<Sum>m<7. sin_coeff m * (4 / 3 :: real) ^ m)\<bar>
      \<le> inverse (fact 7) * \<bar>4 / 3\<bar> ^ 7"
    by (rule Maclaurin_sin_bound)
  have s: "(\<Sum>m<7. sin_coeff m * (4 / 3 :: real) ^ m) = 3548 / 3645"
    by (simp add: sin_coeff_def lessThan_nat_numeral lessThan_Suc fact_numeral power_divide)
  have k: "inverse (fact 7) * \<bar>4 / 3 :: real\<bar> ^ 7 \<le> 2 / 1000" by (simp add: fact_numeral power_divide)
  have "\<bar>sin (4 / 3) - 3548 / 3645\<bar> \<le> (2 / 1000 :: real)"
    using b k unfolding s by linarith
  then show "97 / 100 \<le> sin (4 / 3 :: real)" "sin (4 / 3 :: real) \<le> 98 / 100"
    by linarith+
qed


lemma turned_width:
  fixes a b c :: real
  assumes "0 \<le> a" and "0 \<le> b"
  shows "fst (expanded_size (a, b, c, d, e, f) (11, 2)) = \<lceil>11 * a + 2 * b + c\<rceil> - \<lfloor>c\<rfloor>"
proof -
  have mx: "max (max c (a * 11 + c)) (max (a * 11 + b * 2 + c) (b * 2 + c)) = 11 * a + 2 * b + c"
    using assms by (simp add: max_def)
  have mn: "min (min c (a * 11 + c)) (min (a * 11 + b * 2 + c) (b * 2 + c)) = c"
    using assms by (simp add: min_def)
  show ?thesis
    by (simp add: expanded_size_def affine_def extent_def Let_def mx mn)
qed

lemma rotation_matrix_slope:
  "rotation_matrix (- (240 / pi)) (cx, cy) =
    (cos (4 / 3), sin (4 / 3), cx - cos (4 / 3) * cx - sin (4 / 3) * cy,
     - sin (4 / 3), cos (4 / 3), cy + sin (4 / 3) * cx - cos (4 / 3) * cy)"
  by (simp add: rotation_matrix_def affine_def Let_def algebra_simps)

lemma turned_width_at:
  "fst (im_size (ref_rotate (ref_new ''RGBA'' (11, 2) col) (- (240 / pi)) True (11 / 2, cy))) =
    \<lceil>11 / 2 + 11 / 2 * cos (4 / 3) + 2 * sin (4 / 3) - sin (4 / 3) * cy\<rceil> -
    \<lfloor>11 / 2 - 11 / 2 * cos (4 / 3) - sin (4 / 3) * cy\<rfloor>"
proof -
  have a: "0 \<le> cos (4 / 3 :: real)" using cos_four_thirds(1) by linarith
  have b: "0 \<le> sin (4 / 3 :: real)" using sin_four_thirds(1) by linarith
  have e1: "11 * cos (4 / 3) + 2 * sin (4 / 3) + (11 / 2 - 11 / 2 * cos (4 / 3) - sin (4 / 3) * cy) =
    11 / 2 + 11 / 2 * cos (4 / 3) + 2 * sin (4 / 3) - sin (4 / 3) * cy" by (simp add: algebra_simps)
  have e2: "11 / 2 - cos (4 / 3) * (11 / 2) - sin (4 / 3) * cy =
    11 / 2 - 11 / 2 * cos (4 / 3) - sin (4 / 3) * cy" by simp
  show ?thesis
    unfolding ref_rotate_def Let_def rotation_matrix_slope
    by (simp only: if_True image.simps ref_new_def turned_width [OF a b] e1 e2)
qed

lemma rotation_arguments:
  assumes "detect_faces sample = (bbs, landmarks)" and "landmarks \<noteq> []"
    and "8 \<le> length (hd landmarks)"
    and "hd landmarks ! 1 \<noteq> hd landmarks ! 0"
  shows "\<exists>s p. make_rectangle lib landmarks = Inr s \<and> rotate_and_paste lib sample s = Inr p \<and>
    call lib detect_faces sample = Inr (pasted p) \<and>
    angle p = (hd landmarks ! 6 - hd landmarks ! 5) /
              (hd landmarks ! 1 - hd landmarks ! 0) * (180 / pi) \<and>
    rotated p = rotate_img lib (rectangle s) (- angle p) True
                  (middle_rectangle_x s, middle_rectangle_y s)"
proof -
  obtain s p where sp: "make_rectangle lib landmarks = Inr s"
    "rotate_and_paste lib sample s = Inr p" "call lib detect_faces sample = Inr (pasted p)"
    using both_stages [of detect_faces sample bbs landmarks lib] assms by blast
  have sv: "right_eye_x s = hd landmarks ! 1" "left_eye_x s = hd landmarks ! 0"
    "right_eye_y s = hd landmarks ! 6" "left_eye_y s = hd landmarks ! 5"
    using sp(1) make_rectangle_Inr [OF assms(2,3), of lib] by (auto simp add: Let_def)
  have ne': "right_eye_x s \<noteq> left_eye_x s" using assms(4) sv by simp
  have ang: "angle p = (hd landmarks ! 6 - hd landmarks ! 5) /
      (hd landmarks ! 1 - hd landmarks ! 0) * (180 / pi)"
    and rot: "rotated p = rotate_img lib (rectangle s) (- angle p) True
      (middle_rectangle_x s, middle_rectangle_y s)"
    using sp(2) rotate_and_paste_Inr [OF ne', of lib sample] by (auto simp add: Let_def sv)
  show ?thesis using sp ang rot by blast
qed



section \<open>Identity fallback\<close>

text \<open>
  C1. When the detector returns an empty landmark list, \<^verbatim>\<open>__call__\<close> returns the input
  image itself and raises nothing, whatever the bounding boxes are.
\<close>

theorem identity_fallback:
  "snd (detect_faces sample) = [] \<Longrightarrow> call lib detect_faces sample = Inr sample"
  by (cases "detect_faces sample") (simp add: call_def)

theorem identity_fallback_witness:
  "call ref_pil (\<lambda>im. ([], [])) photo = Inr photo"
  using identity_fallback [of "\<lambda>im. ([], [])" photo ref_pil] by simp

section \<open>Landmark extraction\<close>

text \<open>
  C7. With a non-empty landmark list whose first entry has the eight positions that are
  read, the transform takes the left eye from positions 0 and 5 of the first entry, the
  right eye from positions 1 and 6 and the nose from positions 2 and 7 (five x-coordinates
  followed by five y-coordinates), and the call continues from the values so read. Nothing
  else of the landmark list is used: any other list whose first entry has these three
  points yields the same local state.
\<close>

theorem landmark_extraction:
  assumes "detect_faces sample = (bbs, landmarks)" and "landmarks \<noteq> []"
    and "8 \<le> length (hd landmarks)"
  shows "\<exists>s. make_rectangle lib landmarks = Inr s \<and>
    call lib detect_faces sample = seq (rotate_and_paste lib sample s) (\<lambda>p. Inr (pasted p)) \<and>
    (left_eye_x s, left_eye_y s) = left_eye (hd landmarks) \<and>
    (right_eye_x s, right_eye_y s) = right_eye (hd landmarks) \<and>
    (nose_x s, nose_y s) = nose (hd landmarks) \<and>
    (\<forall>other. other \<noteq> [] \<and> 8 \<le> length (hd other) \<and>
       left_eye (hd other) = left_eye (hd landmarks) \<and>
       right_eye (hd other) = right_eye (hd landmarks) \<and>
       nose (hd other) = nose (hd landmarks) \<longrightarrow>
       make_rectangle lib other = Inr s)"
  using assms
  by (simp add: call_nonempty make_rectangle_Inr Let_def seq_def left_eye_def right_eye_def
      nose_def)

theorem landmark_extraction_witness:
  "\<exists>s. make_rectangle ref_pil [[0, 10, 5, 0, 0, 0, 0, 10, 0, 0]] = Inr s \<and>
     (left_eye_x s, left_eye_y s) = (0, 0) \<and>
     (right_eye_x s, right_eye_y s) = (10, 0) \<and>
     (nose_x s, nose_y s) = (5, 10) \<and>
     make_rectangle ref_pil [[0, 10, 5, 1, 1, 0, 0, 10, 1, 1], [2]] = Inr s"
proof -
  let ?L = "[[0, 10, 5, 0, 0, 0, 0, 10, 0, 0]] :: real list list"
  let ?M = "[[0, 10, 5, 1, 1, 0, 0, 10, 1, 1], [2]] :: real list list"
  obtain s where s: "make_rectangle ref_pil ?L = Inr s"
    "(left_eye_x s, left_eye_y s) = left_eye (hd ?L)"
    "(right_eye_x s, right_eye_y s) = right_eye (hd ?L)"
    "(nose_x s, nose_y s) = nose (hd ?L)"
    and other: "\<forall>other. other \<noteq> [] \<and> 8 \<le> length (hd other) \<and>
       left_eye (hd other) = left_eye (hd ?L) \<and>
       right_eye (hd other) = right_eye (hd ?L) \<and>
       nose (hd other) = nose (hd ?L) \<longrightarrow>
       make_rectangle ref_pil other = Inr s"
    using landmark_extraction [of "\<lambda>im. ([], ?L)" photo "[]" ?L ref_pil] by auto
  have "make_rectangle ref_pil ?M = Inr s"
    using other [rule_format, of ?M] by (simp add: left_eye_def right_eye_def nose_def)
  with s show ?thesis
    by (intro exI [of _ s]) (simp add: left_eye_def right_eye_def nose_def)
qed


section \<open>Size of the overlay\<close>

text \<open>
  C2. The width of the overlay is 2.2 times the Euclidean distance between the two eyes,
  its height 1.5 times the Euclidean distance between the mean of the two eyes and the
  nose, and the rectangle is made by \<^verbatim>\<open>Image.new\<close> in mode RGBA, with the size
  (floor of the width, floor of the height) and the colour named LightGray.
\<close>

theorem overlay_size:
  assumes "detect_faces sample = (bbs, landmarks)" and "landmarks \<noteq> []"
    and "8 \<le> length (hd landmarks)"
  shows "\<exists>s. make_rectangle lib landmarks = Inr s \<and>
    call lib detect_faces sample = seq (rotate_and_paste lib sample s) (\<lambda>p. Inr (pasted p)) \<and>
    googles_width s = 2.2 * euclid (left_eye (hd landmarks)) (right_eye (hd landmarks)) \<and>
    googles_height s =
      1.5 * euclid (mean_point (left_eye (hd landmarks)) (right_eye (hd landmarks)))
              (nose (hd landmarks)) \<and>
    rectangle s = Image_new lib ''RGBA'' (\<lfloor>googles_width s\<rfloor>, \<lfloor>googles_height s\<rfloor>)
                    (ImageColor_getrgb lib ''LightGray'')"
  using assms
  by (simp add: call_nonempty make_rectangle_Inr Let_def seq_def left_eye_def right_eye_def
      nose_def mean_point_def euclid_def py_int_nonneg power2_commute add.commute)

theorem overlay_size_witness:
  "\<exists>s. make_rectangle ref_pil [[0, 10, 5, 0, 0, 0, 0, 12, 0, 0]] = Inr s \<and>
     googles_width s = 22 \<and> googles_height s = 18 \<and>
     rectangle s = ref_new ''RGBA'' (22, 18) [211, 211, 211]"
proof -
  let ?L = "[[0, 10, 5, 0, 0, 0, 0, 12, 0, 0]] :: real list list"
  obtain s where s: "make_rectangle ref_pil ?L = Inr s"
    "googles_width s = 2.2 * euclid (left_eye (hd ?L)) (right_eye (hd ?L))"
    "googles_height s =
      1.5 * euclid (mean_point (left_eye (hd ?L)) (right_eye (hd ?L))) (nose (hd ?L))"
    "rectangle s = Image_new ref_pil ''RGBA'' (\<lfloor>googles_width s\<rfloor>, \<lfloor>googles_height s\<rfloor>)
                    (ImageColor_getrgb ref_pil ''LightGray'')"
    using overlay_size [of "\<lambda>im. ([], ?L)" photo "[]" ?L ref_pil] by auto
  have sq: "sqrt 144 = 12" using real_sqrt_abs [of 12] by simp
  have w: "googles_width s = 22"
    using s(2) by (simp add: euclid_def left_eye_def right_eye_def sqrt_100)
  have h: "googles_height s = 18"
    using s(3) by (simp add: euclid_def mean_point_def left_eye_def right_eye_def nose_def sq)
  have "rectangle s = ref_new ''RGBA'' (22, 18) [211, 211, 211]"
    using s(4) by (simp add: w h ref_pil_def ref_getrgb_def)
  with s(1) w h show ?thesis by blast
qed


section \<open>Degenerate geometry\<close>

text \<open>
  C5. When the two eyes of the first landmark entry have the same x-coordinate, the call
  ends in \<^verbatim>\<open>ZeroDivisionError\<close>: the division of line 24 raises and nothing in the
  transform catches it.
\<close>

theorem degenerate_geometry:
  assumes "detect_faces sample = (bbs, landmarks)" and "landmarks \<noteq> []"
    and "8 \<le> length (hd landmarks)"
    and "fst (left_eye (hd landmarks)) = fst (right_eye (hd landmarks))"
  shows "call lib detect_faces sample = Inl ZeroDivisionError"
  using assms
  by (simp add: call_nonempty make_rectangle_Inr Let_def seq_def rotate_and_paste_Inl
      left_eye_def right_eye_def)

theorem degenerate_geometry_witness:
  "call ref_pil (\<lambda>im. ([], [[3, 3, 5, 0, 0, 0, 4, 10, 0, 0]])) photo = Inl ZeroDivisionError"
  using degenerate_geometry [of "\<lambda>im. ([], [[3, 3, 5, 0, 0, 0, 4, 10, 0, 0]])" photo "[]"
      "[[3, 3, 5, 0, 0, 0, 4, 10, 0, 0]]" ref_pil]
  by (simp add: left_eye_def right_eye_def)


section \<open>Malformed landmarks\<close>

text \<open>
  C8, as amended. With a non-empty landmark list, the call ends in \<^verbatim>\<open>IndexError\<close>
  exactly when the first entry has fewer than eight elements: the emptiness of the outer
  list is the only thing checked, and an entry of eight or nine elements is read without a
  fault.
\<close>

theorem malformed_landmarks:
  assumes "detect_faces sample = (bbs, landmarks)" and "landmarks \<noteq> []"
  shows "(call lib detect_faces sample = Inl IndexError) = (length (hd landmarks) < 8)"
proof (cases "length (hd landmarks) < 8")
  case True
  then show ?thesis
    using assms by (simp add: call_nonempty make_rectangle_Inl seq_def)
next
  case False
  then have len: "8 \<le> length (hd landmarks)" by simp
  show ?thesis
  proof (cases "right_eye_x (projr (make_rectangle lib landmarks)) = left_eye_x (projr (make_rectangle lib landmarks))")
    case True
    then show ?thesis using assms len False
      by (simp add: call_nonempty make_rectangle_Inr Let_def seq_def rotate_and_paste_Inl)
  next
    case neq: False
    then show ?thesis using assms len False
      by (simp add: call_nonempty make_rectangle_Inr Let_def seq_def rotate_and_paste_Inr)
  qed
qed

theorem malformed_landmarks_witness:
  "call ref_pil (\<lambda>im. ([], [[0, 10, 5, 0, 0, 0, 0]])) photo = Inl IndexError \<and>
   call ref_pil (\<lambda>im. ([], [[0, 10, 5, 0, 0, 0, 0, 10]])) photo \<noteq> Inl IndexError"
  using malformed_landmarks [of "\<lambda>im. ([], [[0, 10, 5, 0, 0, 0, 0]])" photo "[]"
      "[[0, 10, 5, 0, 0, 0, 0]]" ref_pil]
    malformed_landmarks [of "\<lambda>im. ([], [[0, 10, 5, 0, 0, 0, 0, 10]])" photo "[]"
      "[[0, 10, 5, 0, 0, 0, 0, 10]]" ref_pil]
  by simp

theorem malformed_landmarks_counterexample:
  "length [0, 10, 5, 0, 0, 0, 0, 10, 0 :: real] < 10 \<and>
   \<not> isl (call ref_pil (\<lambda>im. ([], [[0, 10, 5, 0, 0, 0, 0, 10, 0]])) photo)"
  by (simp add: call_def make_rectangle_Inr rotate_and_paste_Inr Let_def seq_def)


section \<open>Only the first face\<close>

text \<open>
  C9. Two detector results on the same image whose landmark lists are non-empty and have
  the same first entry give the same outcome of the call, be it an image or a fault: the
  bounding boxes and the later landmark entries have no influence.
\<close>

theorem first_face_only:
  assumes "snd (d1 sample) \<noteq> []" and "snd (d2 sample) \<noteq> []"
    and "hd (snd (d1 sample)) = hd (snd (d2 sample))"
  shows "call lib d1 sample = call lib d2 sample"
proof -
  have eq: "make_rectangle lib (snd (d1 sample)) = make_rectangle lib (snd (d2 sample))"
    using assms by (simp add: make_rectangle_def py_index2_first)
  obtain b1 l1 b2 l2 where d: "d1 sample = (b1, l1)" "d2 sample = (b2, l2)"
    by (cases "d1 sample", cases "d2 sample") auto
  with assms eq show ?thesis by (simp add: call_nonempty)
qed

theorem first_face_only_witness:
  "call ref_pil (\<lambda>im. ([[1, 2, 30, 40]], [[0, 10, 5, 0, 0, 0, 0, 10, 0, 0], [7, 7]])) photo =
   call ref_pil (\<lambda>im. ([], [[0, 10, 5, 0, 0, 0, 0, 10, 0, 0]])) photo"
  using first_face_only [of "\<lambda>im. ([[1, 2, 30, 40]], [[0, 10, 5, 0, 0, 0, 0, 10, 0, 0], [7, 7]])"
      photo "\<lambda>im. ([], [[0, 10, 5, 0, 0, 0, 0, 10, 0, 0]])" ref_pil]
  by simp


section \<open>Anchor of the paste\<close>




section \<open>Rotation\<close>

text \<open>
  C3. The claim: when the two eyes have different x-coordinates, the angle in degrees is the
  slope of the eye line multiplied by 180 / pi, and the rectangle is rotated by the negative
  of this angle, with the canvas expanded to fit, about the rectangle's own centre.

  The angle and the expansion are as claimed; the centre is not. Lines 22 and 23 give the
  rectangle the size \<^verbatim>\<open>(int(googles_width), int(googles_height))\<close> and take
  \<^verbatim>\<open>middle_rectangle_x, middle_rectangle_y\<close> from the sizes before \<^verbatim>\<open>int\<close>. For the left eye
  (40, 40), the right eye (43, 44) and the nose (41.5, 43.875) the width is 11 and the height
  45 / 16: the rectangle is 11 by 2, its own centre is (11 / 2, 1), and the call rotates it
  about (11 / 2, 45 / 32), by the angle 240 / pi, which is not a whole turn. On the reference
  library the rotated canvas is then 6 pixels wide; rotated about the rectangle's own centre
  it is 5 pixels wide.
\<close>

theorem rotation_centre_slip:
  "\<exists>s p. make_rectangle ref_pil [[40, 43, 83 / 2, 0, 0, 40, 44, 351 / 8, 0, 0]] = Inr s \<and>
     rotate_and_paste ref_pil photo s = Inr p \<and>
     call ref_pil (\<lambda>im. ([], [[40, 43, 83 / 2, 0, 0, 40, 44, 351 / 8, 0, 0]])) photo
       = Inr (pasted p) \<and>
     angle p = (44 - 40) / (43 - 40) * (180 / pi) \<and>
     im_size (rectangle s) = (11, 2) \<and>
     (middle_rectangle_x s, middle_rectangle_y s) = (11 / 2, 45 / 32) \<and>
     rotated p = ref_rotate (rectangle s) (- angle p) True
                   (middle_rectangle_x s, middle_rectangle_y s) \<and>
     fst (im_size (rotated p)) = 6 \<and>
     fst (im_size (ref_rotate (rectangle s) (- angle p) True
       (real_of_int (fst (im_size (rectangle s))) / 2,
        real_of_int (snd (im_size (rectangle s))) / 2))) = 5"
proof -
  let ?L = "[[40, 43, 83 / 2, 0, 0, 40, 44, 351 / 8, 0, 0]] :: real list list"
  let ?a = "cos (4 / 3 :: real)" and ?b = "sin (4 / 3 :: real)"
  obtain s p where s: "make_rectangle ref_pil ?L = Inr s"
    and p: "rotate_and_paste ref_pil photo s = Inr p"
    and c: "call ref_pil (\<lambda>im. ([], ?L)) photo = Inr (pasted p)"
    and ang0: "angle p = (hd ?L ! 6 - hd ?L ! 5) / (hd ?L ! 1 - hd ?L ! 0) * (180 / pi)"
    and rot0: "rotated p = rotate_img ref_pil (rectangle s) (- angle p) True
                  (middle_rectangle_x s, middle_rectangle_y s)"
    using rotation_arguments [of "\<lambda>im. ([], ?L)" photo "[]" ?L ref_pil] by auto
  have sq: "sqrt 25 = 5" using real_sqrt_abs [of 5] by simp
  have raw: "googles_width s = 2.2 * sqrt ((44 - 40)\<^sup>2 + (43 - 40)\<^sup>2)"
    "googles_height s = 1.5 * sqrt (((44 + 40) / 2 - 351 / 8)\<^sup>2 + ((43 + 40) / 2 - 83 / 2)\<^sup>2)"
    "rectangle s = Image_new ref_pil ''RGBA'' (py_int (googles_width s), py_int (googles_height s))
       (ImageColor_getrgb ref_pil ''LightGray'')"
    "middle_rectangle_x s = googles_width s / 2" "middle_rectangle_y s = googles_height s / 2"
    using s by (auto simp add: make_rectangle_Inr Let_def)
  have gw: "googles_width s = 11" unfolding raw(1) by (simp add: sq)
  have d: "((44 + 40) / 2 - 351 / 8 :: real)\<^sup>2 + ((43 + 40) / 2 - 83 / 2)\<^sup>2 = (15 / 8)\<^sup>2"
    by (simp add: power2_eq_square)
  have gh: "googles_height s = 45 / 16" unfolding raw(2) d by simp
  have fl: "\<lfloor>45 / 16 :: real\<rfloor> = 2" by linarith
  have rect: "rectangle s = ref_new ''RGBA'' (11, 2) [211, 211, 211]"
    by (simp add: raw(3) gw gh py_int_def fl ref_pil_fields ref_getrgb_def)
  have sz: "im_size (rectangle s) = (11, 2)" by (simp add: rect ref_new_def)
  have mid: "(middle_rectangle_x s, middle_rectangle_y s) = (11 / 2, 45 / 32)"
    by (simp add: raw(4,5) gw gh)
  have ang: "angle p = (44 - 40) / (43 - 40) * (180 / pi)" using ang0 by simp
  have ang': "- angle p = - (240 / pi)" using ang0 by simp
  have rot: "rotated p = ref_rotate (rectangle s) (- angle p) True
      (middle_rectangle_x s, middle_rectangle_y s)"
    using rot0 by (simp add: ref_pil_fields)
  have a: "23 / 100 \<le> ?a" "?a \<le> 24 / 100" by (rule cos_four_thirds)+
  have b: "97 / 100 \<le> ?b" "?b \<le> 98 / 100" by (rule sin_four_thirds)+
  have w_code: "\<lceil>11 / 2 + 11 / 2 * ?a + 2 * ?b - ?b * (45 / 32)\<rceil> -
      \<lfloor>11 / 2 - 11 / 2 * ?a - ?b * (45 / 32)\<rfloor> = 6"
  proof -
    have "\<lceil>11 / 2 + 11 / 2 * ?a + 2 * ?b - ?b * (45 / 32)\<rceil> = 8" using a b by linarith
    moreover have "\<lfloor>11 / 2 - 11 / 2 * ?a - ?b * (45 / 32)\<rfloor> = 2" using a b by linarith
    ultimately show ?thesis by simp
  qed
  have w_own: "\<lceil>11 / 2 + 11 / 2 * ?a + 2 * ?b - ?b * (2 / 2)\<rceil> -
      \<lfloor>11 / 2 - 11 / 2 * ?a - ?b * (2 / 2)\<rfloor> = 5"
  proof -
    have "\<lceil>11 / 2 + 11 / 2 * ?a + 2 * ?b - ?b * (2 / 2)\<rceil> = 8" using a b by linarith
    moreover have "\<lfloor>11 / 2 - 11 / 2 * ?a - ?b * (2 / 2)\<rfloor> = 3" using a b by linarith
    ultimately show ?thesis by simp
  qed
  have s1: "fst (im_size (rotated p)) = 6"
    unfolding rot mid ang' rect turned_width_at by (rule w_code)
  have own: "(real_of_int (fst (im_size (rectangle s))) / 2,
      real_of_int (snd (im_size (rectangle s))) / 2) = (11 / 2, 2 / 2)"
    by (simp add: sz)
  have s2': "fst (im_size (ref_rotate (rectangle s) (- angle p) True (11 / 2, 2 / 2))) = 5"
    unfolding ang' rect turned_width_at by (rule w_own)
  have s2: "fst (im_size (ref_rotate (rectangle s) (- angle p) True
       (real_of_int (fst (im_size (rectangle s))) / 2,
        real_of_int (snd (im_size (rectangle s))) / 2))) = 5"
    unfolding own by (rule s2')
  show ?thesis using s p c ang sz mid rot s1 s2 by blast
qed


section \<open>The instance with level eyes\<close>

text \<open>
  C6, as amended. For the left eye (0, 0), the right eye (10, 0) and the nose (5, 10) the
  width of the overlay is 22 and its height is 15 (the mean of the eyes is (5, 0), at
  distance 10 from the nose); the angle is 0. With a library whose new images have the
  requested size and whose rotation by zero degrees keeps the size, the rectangle is
  22 by 15 and the rotated rectangle has the same size.
\<close>

theorem level_eyes_instance:
  assumes "new_has_size lib" and "rotate0_keeps_size lib"
    and "detect_faces sample = (bbs, landmarks)" and "landmarks \<noteq> []"
    and "8 \<le> length (hd landmarks)"
    and "left_eye (hd landmarks) = (0, 0)" and "right_eye (hd landmarks) = (10, 0)"
    and "nose (hd landmarks) = (5, 10)"
  shows "\<exists>s p. make_rectangle lib landmarks = Inr s \<and> rotate_and_paste lib sample s = Inr p \<and>
    call lib detect_faces sample = Inr (pasted p) \<and>
    googles_width s = 22 \<and> googles_height s = 15 \<and> angle p = 0 \<and>
    size_img lib (rectangle s) = (22, 15) \<and> size_img lib (rotated p) = size_img lib (rectangle s) \<and>
    final_size p = size_img lib (rotated p)"
proof -
  have e: "hd landmarks ! 0 = 0" "hd landmarks ! 5 = 0" "hd landmarks ! 1 = 10"
    "hd landmarks ! 6 = 0" "hd landmarks ! 2 = 5" "hd landmarks ! 7 = 10"
    using assms(6-8) by (simp_all add: left_eye_def right_eye_def nose_def)
  have ne: "hd landmarks ! 1 \<noteq> hd landmarks ! 0" using e by simp
  obtain s p where sp: "make_rectangle lib landmarks = Inr s"
    "rotate_and_paste lib sample s = Inr p" "call lib detect_faces sample = Inr (pasted p)"
    using both_stages [of detect_faces sample bbs landmarks lib] assms(3-5) ne by blast
  have sv: "googles_width s = 22" "googles_height s = 15"
    "rectangle s = Image_new lib ''RGBA'' (22, 15) (ImageColor_getrgb lib ''LightGray'')"
    "right_eye_x s = 10" "left_eye_x s = 0" "right_eye_y s = 0" "left_eye_y s = 0"
    using sp(1) make_rectangle_Inr [OF assms(4,5), of lib] e
    by (auto simp add: Let_def sqrt_100 py_int_def)
  have ne': "right_eye_x s \<noteq> left_eye_x s" by (simp add: sv)
  have pv: "angle p = 0" "final_size p = size_img lib (rotated p)"
    "rotated p = rotate_img lib (rectangle s) 0 True (middle_rectangle_x s, middle_rectangle_y s)"
    using sp(2) rotate_and_paste_Inr [OF ne', of lib sample] by (auto simp add: Let_def sv)
  have sz: "size_img lib (rectangle s) = (22, 15)"
    using assms(1) by (simp add: new_has_size_def sv)
  have "size_img lib (rotated p) = size_img lib (rectangle s)"
    using assms(2) sz by (simp add: rotate0_keeps_size_def pv(3))
  with sp sv pv sz show ?thesis by auto
qed

theorem level_eyes_instance_witness:
  "\<exists>s p. make_rectangle ref_pil [[0, 10, 5, 0, 0, 0, 0, 10, 0, 0]] = Inr s \<and>
     rotate_and_paste ref_pil photo s = Inr p \<and>
     call ref_pil (\<lambda>im. ([], [[0, 10, 5, 0, 0, 0, 0, 10, 0, 0]])) photo = Inr (pasted p) \<and>
     googles_width s = 22 \<and> googles_height s = 15 \<and> angle p = 0 \<and>
     im_size (rectangle s) = (22, 15) \<and> im_size (rotated p) = (22, 15) \<and>
     final_size p = (22, 15)"
  using level_eyes_instance [OF ref_new_size ref_rotate0_size,
      of "\<lambda>im. ([], [[0, 10, 5, 0, 0, 0, 0, 10, 0, 0]])" photo "[]"
      "[[0, 10, 5, 0, 0, 0, 0, 10, 0, 0]]"]
  by (auto simp add: left_eye_def right_eye_def nose_def ref_pil_fields)

theorem level_eyes_instance_counterexample:
  "googles_height (projr (make_rectangle ref_pil [[0, 10, 5, 0, 0, 0, 0, 10, 0, 0]])) = 15 \<and>
   googles_height (projr (make_rectangle ref_pil [[0, 10, 5, 0, 0, 0, 0, 10, 0, 0]]))
     \<noteq> 1.5 * sqrt 125"
proof -
  have "(10::real) < sqrt 125" by (rule real_less_rsqrt) simp
  then have "sqrt 125 \<noteq> 10" by simp
  then show ?thesis
    by (simp add: make_rectangle_Inr Let_def sqrt_100)
qed


section \<open>Frame of the paste\<close>

text \<open>
  C10. When the call completes on a non-empty landmark list, with a library whose
  \<^verbatim>\<open>paste\<close> changes no pixel outside the region of the pasted image and no pixel
  where the mask is zero: every pixel outside the region of the rotated rectangle, placed
  at the computed box, has its value of the input image, and so has every pixel inside the
  region at which the alpha of the rotated rectangle is zero.
\<close>

theorem paste_frame_property:
  assumes "paste_keeps_outside lib" and "paste_keeps_masked lib"
    and "detect_faces sample = (bbs, landmarks)" and "landmarks \<noteq> []"
    and "call lib detect_faces sample = Inr out"
  shows "\<exists>s p. make_rectangle lib landmarks = Inr s \<and> rotate_and_paste lib sample s = Inr p \<and>
    box p = (py_int (middle_eyes_x s - real_of_int (fst (size_img lib (rotated p))) / 2),
             py_int (middle_eyes_y s - real_of_int (snd (size_img lib (rotated p))) / 2)) \<and>
    (\<forall>q. \<not> in_box (box p) (size_img lib (rotated p)) q \<longrightarrow>
       getpixel lib out q = getpixel lib sample q) \<and>
    (\<forall>q. in_box (box p) (size_img lib (rotated p)) q \<and>
         getalpha lib (rotated p) (fst q - fst (box p), snd q - snd (box p)) = 0 \<longrightarrow>
       getpixel lib out q = getpixel lib sample q)"
proof -
  obtain s p where sp: "make_rectangle lib landmarks = Inr s"
    "rotate_and_paste lib sample s = Inr p" "out = pasted p"
    "8 \<le> length (hd landmarks)" "right_eye_x s \<noteq> left_eye_x s"
    using call_Inr_stages [OF assms(3-5)] by blast
  have pst: "out = paste lib sample (rotated p) (box p) (rotated p)"
    and bx: "box p = (py_int (middle_eyes_x s - real_of_int (fst (size_img lib (rotated p))) / 2),
             py_int (middle_eyes_y s - real_of_int (snd (size_img lib (rotated p))) / 2))"
    using sp(2,3) rotate_and_paste_Inr [OF sp(5), of lib sample] by (auto simp add: Let_def)
  have a: "\<forall>q. \<not> in_box (box p) (size_img lib (rotated p)) q \<longrightarrow>
       getpixel lib out q = getpixel lib sample q"
    using assms(1) unfolding paste_keeps_outside_def pst by blast
  have b: "\<forall>q. in_box (box p) (size_img lib (rotated p)) q \<and>
         getalpha lib (rotated p) (fst q - fst (box p), snd q - snd (box p)) = 0 \<longrightarrow>
       getpixel lib out q = getpixel lib sample q"
    using assms(2) unfolding paste_keeps_masked_def pst by blast
  show ?thesis using sp(1,2) bx a b by blast
qed

theorem paste_frame_property_witness:
  "\<exists>s p out.
     make_rectangle ref_pil
       [[50, 50 + 21 / 100, 50 + 21 / 200, 0, 0, 50, 50 + pi * 21 / 100, 52 + pi * 21 / 200, 0, 0]]
       = Inr s \<and>
     rotate_and_paste ref_pil photo s = Inr p \<and>
     call ref_pil (\<lambda>im. ([],
       [[50, 50 + 21 / 100, 50 + 21 / 200, 0, 0, 50, 50 + pi * 21 / 100, 52 + pi * 21 / 200, 0, 0]]))
       photo = Inr out \<and>
     angle p = 180 \<and> box p = (49, 48) \<and> im_size (rotated p) = (2, 3) \<and>
     \<not> in_box (49, 48) (2, 3) (0, 0) \<and> im_pix out (0, 0) = im_pix photo (0, 0) \<and>
     in_box (49, 48) (2, 3) (49, 48) \<and> ref_alpha (rotated p) (0, 0) = 0 \<and>
     im_pix out (49, 48) = im_pix photo (49, 48)"
proof -
  let ?L = "[[50, 50 + 21 / 100, 50 + 21 / 200, 0, 0, 50, 50 + pi * 21 / 100,
    52 + pi * 21 / 200, 0, 0]] :: real list list"
  let ?d = "\<lambda>im :: image. ([] :: real list list, ?L)"
  define g :: real where "g = 2.2 * sqrt ((pi * 21 / 100)\<^sup>2 + (21 / 100)\<^sup>2)"
  have g: "1 < g" "g < 2" unfolding g_def by (rule width_bounds)+
  have sq: "sqrt 4 = 2" using real_sqrt_abs [of 2] by simp
  have "\<not> isl (call ref_pil ?d photo)"
    by (simp add: call_def make_rectangle_Inr rotate_and_paste_Inr Let_def seq_def)
  then obtain out where out: "call ref_pil ?d photo = Inr out"
    by (cases "call ref_pil ?d photo") simp_all
  obtain s p where s: "make_rectangle ref_pil ?L = Inr s"
    and p: "rotate_and_paste ref_pil photo s = Inr p"
    and outside: "\<forall>q. \<not> in_box (box p) (size_img ref_pil (rotated p)) q \<longrightarrow>
       getpixel ref_pil out q = getpixel ref_pil photo q"
    and masked: "\<forall>q. in_box (box p) (size_img ref_pil (rotated p)) q \<and>
         getalpha ref_pil (rotated p) (fst q - fst (box p), snd q - snd (box p)) = 0 \<longrightarrow>
       getpixel ref_pil out q = getpixel ref_pil photo q"
    using paste_frame_property [OF ref_paste_outside ref_paste_masked, of ?d photo "[]" ?L out, OF _ _ out]
    by auto
  have fl: "\<lfloor>g\<rfloor> = 1" using g by linarith
  have raw: "left_eye_x s = 50" "left_eye_y s = 50" "right_eye_x s = 50 + 21 / 100"
    "right_eye_y s = 50 + pi * 21 / 100"
    "middle_eyes_x s = (50 + 21 / 100 + 50) / 2"
    "middle_eyes_y s = (50 + pi * 21 / 100 + 50) / 2"
    "googles_width s = 2.2 * sqrt ((50 + pi * 21 / 100 - 50)\<^sup>2 + (50 + 21 / 100 - 50)\<^sup>2)"
    "googles_height s =
       1.5 * sqrt (((50 + pi * 21 / 100 + 50) / 2 - (52 + pi * 21 / 200))\<^sup>2 +
                   ((50 + 21 / 100 + 50) / 2 - (50 + 21 / 200))\<^sup>2)"
    "middle_rectangle_x s = googles_width s / 2" "middle_rectangle_y s = googles_height s / 2"
    "rectangle s = Image_new ref_pil ''RGBA'' (py_int (googles_width s), py_int (googles_height s))
       (ImageColor_getrgb ref_pil ''LightGray'')"
    using s by (auto simp add: make_rectangle_Inr Let_def)
  have d1: "(50 + pi * 21 / 100 + 50) / 2 - (52 + pi * 21 / 200) = - 2"
    by (simp add: field_simps)
  have d2: "(50 + 21 / 100 + 50) / 2 - (50 + 21 / 200) = (0 :: real)" by simp
  have d3: "50 + pi * 21 / 100 - 50 = pi * 21 / 100" by simp
  have d4: "50 + 21 / 100 - 50 = (21 / 100 :: real)" by simp
  have d5: "(50 + pi * 21 / 100 + 50) / 2 = 50 + pi * 21 / 200" by (simp add: field_simps)
  have d6: "(50 + 21 / 100 + 50) / 2 = (50 + 21 / 200 :: real)" by simp
  have gh: "googles_height s = 3" unfolding raw(8) d1 d2 by (simp add: sq)
  have gw: "googles_width s = g" unfolding raw(7) d3 d4 g_def by simp
  have sv: "googles_width s = g" "googles_height s = 3"
    "right_eye_x s - left_eye_x s = 21 / 100" "right_eye_y s - left_eye_y s = pi * 21 / 100"
    "middle_eyes_x s = 50 + 21 / 200" "middle_eyes_y s = 50 + pi * 21 / 200"
    "middle_rectangle_x s = g / 2" "middle_rectangle_y s = 3 / 2"
    "rectangle s = Image_new ref_pil ''RGBA'' (py_int (googles_width s), py_int (googles_height s))
       (ImageColor_getrgb ref_pil ''LightGray'')"
    using gw gh raw(9-11) by (simp_all add: raw(1-4) raw(5) [unfolded d6] raw(6) [unfolded d5])
  have rect: "rectangle s = ref_new ''RGBA'' (1, 3) [211, 211, 211]"
    using g by (simp add: sv py_int_def fl ref_pil_fields ref_getrgb_def)
  have ne: "right_eye_x s \<noteq> left_eye_x s" using sv(3) by auto
  have pv: "angle p = (right_eye_y s - left_eye_y s) / (right_eye_x s - left_eye_x s) * 180 / pi"
    "rotated p = rotate_img ref_pil (rectangle s) (- angle p) True
       (middle_rectangle_x s, middle_rectangle_y s)"
    "box p = (py_int (middle_eyes_x s - real_of_int (fst (size_img ref_pil (rotated p))) / 2),
              py_int (middle_eyes_y s - real_of_int (snd (size_img ref_pil (rotated p))) / 2))"
    using p rotate_and_paste_Inr [OF ne, of ref_pil photo] by (auto simp add: Let_def)
  have ang: "angle p = 180" by (simp add: pv(1) sv)
  have rot: "rotated p = ref_rotate (ref_new ''RGBA'' (1, 3) [211, 211, 211]) (- 180) True (g / 2, 3 / 2)"
    by (simp add: pv(2) ang rect sv ref_pil_fields)
  have m: "rotation_matrix (- 180) (g / 2, 3 / 2) = (- 1, 0, g, 0, - 1, 3)"
    by (simp add: rotation_matrix_180)
  have sz: "im_size (rotated p) = (2, 3)"
    by (simp add: rot ref_rotate_def Let_def m half_turn_width [OF g] ref_new_def)
  have bx: "box p = (49, 48)"
  proof -
    have "0 \<le> pi * 21 / 200" by simp
    moreover have "pi * 21 / 200 < 1 / 2" using pi_less_4 by simp
    ultimately have "\<lfloor>50 + pi * 21 / 200 - 3 / 2\<rfloor> = 48" by linarith
    moreover have "\<lfloor>50 + 21 / 200 - 1 :: real\<rfloor> = 49" by linarith
    moreover have "0 \<le> 50 + pi * 21 / 200 - 3 / 2" by simp
    ultimately show ?thesis
      by (simp add: pv(3) sz sv ref_pil_fields py_int_def)
  qed
  have al: "ref_alpha (rotated p) (0, 0) = 0"
    using g by (simp add: rot ref_rotate_def Let_def m half_turn_width [OF g] ref_new_def recentre_def
        affine_def sample_nearest_def inside_def ref_alpha_def fl)
  have o1: "im_pix out (0, 0) = im_pix photo (0, 0)"
    using outside [rule_format, of "(0, 0)"] by (simp add: bx sz ref_pil_fields in_box_def)
  have o2: "im_pix out (49, 48) = im_pix photo (49, 48)"
    using masked [rule_format, of "(49, 48)"] al by (simp add: bx sz ref_pil_fields in_box_def)
  show ?thesis
    using s p out ang bx sz al o1 o2 by (auto simp add: in_box_def)
qed

end
